theory Spec2Isabelle
  imports Main
begin

section \<open>Client-side authentication (context/AuthContext.tsx)\<close>

subsection \<open>Values produced by \<^verbatim>\<open>JSON.parse\<close> and texts held in \<^verbatim>\<open>localStorage\<close>\<close>

text \<open>
  The provider reads its data with \<^verbatim>\<open>JSON.parse\<close> and types it \<^verbatim>\<open>any\<close>, so the
  model keeps the untyped view: a parsed value is a \<open>jsval\<close>. Numbers play no role in
  the code below beyond their truthiness and are kept as integers. The JavaScript
  \<^verbatim>\<open>undefined\<close> is \<open>None\<close> of \<open>jsval option\<close>.
\<close>

datatype jsval =
    JNull
  | JBool bool
  | JNum int
  | JStr string
  | JArr "jsval list"
  | JObj "(string \<times> jsval) list"

text \<open>
  A text held in \<^verbatim>\<open>localStorage\<close>, as far as the provider can tell texts apart: the empty
  string (falsy, and rejected by \<^verbatim>\<open>JSON.parse\<close>), a non-empty string that is not JSON
  (for example \<^verbatim>\<open>{oops\<close>), or the serialisation of a value.
\<close>

datatype stored_text = EmptyText | NonJson | Json jsval






fun truthy :: "jsval \<Rightarrow> bool" where
  "truthy JNull = False"
| "truthy (JBool b) = b"
| "truthy (JNum n) = (n \<noteq> 0)"
| "truthy (JStr s) = (s \<noteq> [])"
| "truthy (JArr xs) = True"
| "truthy (JObj kvs) = True"






subsection \<open>The provider's state and operations\<close>

record auth_state =
  user :: jsval
  localStorage :: "string \<rightharpoonup> stored_text"

definition isAuthenticated :: "auth_state \<Rightarrow> bool" where
  "isAuthenticated st = truthy (user st)"


definition removeItem :: "string \<Rightarrow> auth_state \<Rightarrow> auth_state" where
  "removeItem k st = st\<lparr>localStorage := (localStorage st)(k := None)\<rparr>"















definition logout :: "auth_state \<Rightarrow> auth_state" where
  "logout st = removeItem ''user'' (st\<lparr>user := JNull\<rparr>)"


section \<open>The analysis client (services/api.ts)\<close>

datatype AgentType = Auto | Pdf | Ppt | Dashboard | Data_analysis

fun agent_string :: "AgentType \<Rightarrow> string" where
  "agent_string Auto = ''auto''"
| "agent_string Pdf = ''pdf''"
| "agent_string Ppt = ''ppt''"
| "agent_string Dashboard = ''dashboard''"
| "agent_string Data_analysis = ''data_analysis''"

record File =
  file_name :: string
  file_content :: string

record ImageData =
  url :: string
  title :: string
  description :: string

text \<open>
  An optional field of the response is \<open>None\<close> when the body does not carry it; a field
  that is present holds a string, which may be empty.
\<close>

record AnalysisResponse =
  response :: string
  images :: "ImageData list option"
  image_paths :: "string list option"
  pdf_path :: "string option"
  ppt_path :: "string option"
  dashboard_path :: "string option"

datatype form_value = Text string | Blob File

type_synonym FormData = "(string \<times> form_value) list"

text \<open>The form each function has built when it calls \<^verbatim>\<open>fetch\<close>.\<close>

definition uploadAndAnalyze_form :: "File \<Rightarrow> string \<Rightarrow> AgentType \<Rightarrow> FormData" where
  "uploadAndAnalyze_form file prompt agentType =
     [(''file'', Blob file), (''prompt'', Text prompt)] @
     (if agentType \<noteq> Auto then [(''agent_type'', Text (agent_string agentType))] else [])"

definition analyzeWithExistingData_form :: "string \<Rightarrow> AgentType \<Rightarrow> FormData" where
  "analyzeWithExistingData_form prompt agentType =
     [(''prompt'', Text prompt)] @
     (if agentType \<noteq> Auto then [(''agent_type'', Text (agent_string agentType))] else [])"

text \<open>
  A value thrown to the caller: an \<^verbatim>\<open>Error\<close> object with its message, or a value that is
  not an \<^verbatim>\<open>Error\<close>. What \<^verbatim>\<open>fetch\<close> gives: a rejection, or a response with its \<^verbatim>\<open>ok\<close> flag
  and the outcome of \<^verbatim>\<open>response.json()\<close>.
\<close>

datatype thrown = ErrorObject string | OtherValue

datatype fetch_outcome = Rejected thrown | Responded bool "thrown + AnalysisResponse"

text \<open>The part of both functions after \<^verbatim>\<open>await fetch(...)\<close>.\<close>

definition analyze_result :: "fetch_outcome \<Rightarrow> thrown + AnalysisResponse" where
  "analyze_result out =
     (case out of
        Rejected e \<Rightarrow> Inl e
      | Responded ok body \<Rightarrow>
          if \<not> ok then Inl (ErrorObject ''Analysis request failed'') else body)"

text \<open>The two calls a conversation view makes, with their arguments.\<close>

datatype api_call =
    UploadAndAnalyze File string AgentType
  | AnalyzeWithExistingData string AgentType

fun form_of :: "api_call \<Rightarrow> FormData" where
  "form_of (UploadAndAnalyze file prompt agentType) = uploadAndAnalyze_form file prompt agentType"
| "form_of (AnalyzeWithExistingData prompt agentType) = analyzeWithExistingData_form prompt agentType"

section \<open>The conversation views (components/Chat.tsx, components/AgentPage.tsx)\<close>

subsection \<open>\<^verbatim>\<open>String.prototype.trim\<close>\<close>

text \<open>
  On the bytes of a string, \<open>whitespace_prefix s\<close> is the number of bytes of the
  white-space or line-terminator code point \<open>s\<close> starts with, 0 when it starts with none:
  U+0009 to U+000D, U+0020, U+00A0, U+1680, U+2000 to U+200A, U+2028, U+2029, U+202F,
  U+205F, U+3000, U+FEFF.
\<close>

definition whitespace3 :: "nat \<Rightarrow> nat \<Rightarrow> nat \<Rightarrow> bool" where
  "whitespace3 a b c =
     ((a = 0xE1 \<and> b = 0x9A \<and> c = 0x80) \<or>
      (a = 0xE2 \<and> b = 0x80 \<and> ((0x80 \<le> c \<and> c \<le> 0x8A) \<or> c = 0xA8 \<or> c = 0xA9 \<or> c = 0xAF)) \<or>
      (a = 0xE2 \<and> b = 0x81 \<and> c = 0x9F) \<or>
      (a = 0xE3 \<and> b = 0x80 \<and> c = 0x80) \<or>
      (a = 0xEF \<and> b = 0xBB \<and> c = 0xBF))"

definition whitespace1 :: "nat \<Rightarrow> bool" where
  "whitespace1 a = ((9 \<le> a \<and> a \<le> 13) \<or> a = 32)"

fun whitespace_bytes :: "nat list \<Rightarrow> nat" where
  "whitespace_bytes [] = 0"
| "whitespace_bytes [a] = (if whitespace1 a then 1 else 0)"
| "whitespace_bytes [a, b] =
     (if whitespace1 a then 1 else if a = 0xC2 \<and> b = 0xA0 then 2 else 0)"
| "whitespace_bytes (a # b # c # r) =
     (if whitespace1 a then 1 else if a = 0xC2 \<and> b = 0xA0 then 2
      else if whitespace3 a b c then 3 else 0)"

definition whitespace_prefix :: "string \<Rightarrow> nat" where
  "whitespace_prefix s = whitespace_bytes (map of_char (take 3 s))"

definition whitespace_suffix :: "string \<Rightarrow> nat" where
  "whitespace_suffix s =
     (if 1 \<le> length s \<and> whitespace_prefix (drop (length s - 1) s) = 1 then 1
      else if 2 \<le> length s \<and> whitespace_prefix (drop (length s - 2) s) = 2 then 2
      else if 3 \<le> length s \<and> whitespace_prefix (drop (length s - 3) s) = 3 then 3
      else 0)"

function trimStart :: "string \<Rightarrow> string" where
  "trimStart s =
     (if s = [] \<or> whitespace_prefix s = 0 then s else trimStart (drop (whitespace_prefix s) s))"
  by pat_completeness auto
termination
  by (relation "measure length") auto

function trimEnd :: "string \<Rightarrow> string" where
  "trimEnd s =
     (if s = [] \<or> whitespace_suffix s = 0 then s
      else trimEnd (take (length s - whitespace_suffix s) s))"
  by pat_completeness auto
termination
  by (relation "measure length") auto

definition trim :: "string \<Rightarrow> string" where
  "trim s = trimEnd (trimStart s)"

declare trimStart.simps [simp del] trimEnd.simps [simp del]

subsection \<open>Component state\<close>

datatype message_type = User | Assistant

record Message =
  msg_id :: string
  msg_type :: message_type
  content :: string
  timestamp :: int
  msg_images :: "string list option"
  imageData :: "ImageData list option"
  pdfPath :: "string option"
  pptPath :: "string option"
  dashboardPath :: "string option"

text \<open>
  The \<^verbatim>\<open>useState\<close> cells both components declare; \<open>None\<close> is \<^verbatim>\<open>null\<close>. \<^verbatim>\<open>Chat\<close> extends
  them with \<open>showDashboard\<close> and \<open>selectedAgent\<close>; \<^verbatim>\<open>AgentPage\<close> gets its agent as the
  property \<open>agentType\<close>.
\<close>

record conversation =
  messages :: "Message list"
  input :: string
  loading :: bool
  uploadedFile :: "File option"
  dragActive :: bool
  latestPdf :: "string option"
  latestPpt :: "string option"
  latestDashboard :: "string option"

record Chat_state = conversation +
  showDashboard :: bool
  selectedAgent :: AgentType

definition initial_conversation :: conversation where
  "initial_conversation =
     \<lparr>messages = [], input = [], loading = False, uploadedFile = None, dragActive = False,
      latestPdf = None, latestPpt = None, latestDashboard = None\<rparr>"

definition initial_Chat :: Chat_state where
  "initial_Chat =
     \<lparr>messages = [], input = [], loading = False, uploadedFile = None, dragActive = False,
      latestPdf = None, latestPpt = None, latestDashboard = None,
      showDashboard = False, selectedAgent = Auto\<rparr>"

text \<open>Truthiness of an optional string, as tested by \<^verbatim>\<open>if (response.pdf_path)\<close>.\<close>

definition string_truthy :: "string option \<Rightarrow> bool" where
  "string_truthy s = (case s of None \<Rightarrow> False | Some t \<Rightarrow> t \<noteq> [])"

subsection \<open>\<^verbatim>\<open>handleSendMessage\<close>\<close>

text \<open>
  The handler is the same text in both components up to the agent it passes on. It runs in
  two parts, before and after its \<^verbatim>\<open>await\<close>. \<open>mid\<close> stands for the identifier drawn with
  \<^verbatim>\<open>Math.random()\<close> and \<open>now\<close> for \<^verbatim>\<open>new Date()\<close>. The paper-clip sign of the user message
  is the four bytes of U+1F4CE.
\<close>

definition userMessage :: "string \<Rightarrow> int \<Rightarrow> File option \<Rightarrow> string \<Rightarrow> Message" where
  "userMessage mid now file inp =
     \<lparr>msg_id = mid, msg_type = User,
      content = (case file of
                   Some f \<Rightarrow> [CHR 0xF0, CHR 0x9F, CHR 0x93, CHR 0x8E] @ '' '' @ file_name f @
                             [CHR 0x0A, CHR 0x0A] @ inp
                 | None \<Rightarrow> inp),
      timestamp = now, msg_images = None, imageData = None,
      pdfPath = None, pptPath = None, dashboardPath = None\<rparr>"

definition assistantMessage :: "string \<Rightarrow> int \<Rightarrow> AnalysisResponse \<Rightarrow> Message" where
  "assistantMessage mid now r =
     \<lparr>msg_id = mid, msg_type = Assistant, content = response r, timestamp = now,
      msg_images = image_paths r, imageData = images r,
      pdfPath = pdf_path r, pptPath = ppt_path r, dashboardPath = dashboard_path r\<rparr>"

definition errorMessage :: "string \<Rightarrow> int \<Rightarrow> thrown \<Rightarrow> Message" where
  "errorMessage mid now e =
     \<lparr>msg_id = mid, msg_type = Assistant,
      content = ''Error: '' @ (case e of ErrorObject m \<Rightarrow> m
                                | OtherValue \<Rightarrow> ''An unexpected error occurred''),
      timestamp = now, msg_images = None, imageData = None,
      pdfPath = None, pptPath = None, dashboardPath = None\<rparr>"

text \<open>
  Up to the \<^verbatim>\<open>await\<close>: the state the handler leaves and the call it has issued, if any.
\<close>

definition handleSendMessage :: "AgentType \<Rightarrow> string \<Rightarrow> int \<Rightarrow> 'a conversation_scheme
    \<Rightarrow> 'a conversation_scheme \<times> api_call option" where
  "handleSendMessage agent mid now st =
     (if trim (input st) = [] then (st, None)
      else
        (st\<lparr>messages := messages st @ [userMessage mid now (uploadedFile st) (input st)],
            input := [], loading := True\<rparr>,
         Some (case uploadedFile st of
                 Some f \<Rightarrow> UploadAndAnalyze f (input st) agent
               | None \<Rightarrow> AnalyzeWithExistingData (input st) agent)))"

text \<open>
  From the \<^verbatim>\<open>await\<close> on, for the call that was issued and its outcome, on the state the
  component has by then. The handler's own \<open>uploadedFile\<close> was set exactly when the call
  is \<open>UploadAndAnalyze\<close>.
\<close>

definition handleSendMessage_resume :: "string \<Rightarrow> int \<Rightarrow> api_call \<Rightarrow> thrown + AnalysisResponse
    \<Rightarrow> 'a conversation_scheme \<Rightarrow> 'a conversation_scheme" where
  "handleSendMessage_resume mid now call outcome st =
     (case outcome of
        Inr r \<Rightarrow>
          (let st1 = (case call of
                        UploadAndAnalyze f p a \<Rightarrow> st\<lparr>uploadedFile := None\<rparr>
                      | AnalyzeWithExistingData p a \<Rightarrow> st);
               st2 = (if string_truthy (pdf_path r) then st1\<lparr>latestPdf := pdf_path r\<rparr> else st1);
               st3 = (if string_truthy (ppt_path r) then st2\<lparr>latestPpt := ppt_path r\<rparr> else st2);
               st4 = (if string_truthy (dashboard_path r)
                      then st3\<lparr>latestDashboard := dashboard_path r\<rparr> else st3)
           in st4\<lparr>messages := messages st4 @ [assistantMessage mid now r], loading := False\<rparr>)
      | Inl e \<Rightarrow> st\<lparr>messages := messages st @ [errorMessage mid now e], loading := False\<rparr>)"

subsection \<open>The other handlers\<close>

definition setInput :: "string \<Rightarrow> 'a conversation_scheme \<Rightarrow> 'a conversation_scheme" where
  "setInput v st = st\<lparr>input := v\<rparr>"

definition setUploadedFile :: "File option \<Rightarrow> 'a conversation_scheme \<Rightarrow> 'a conversation_scheme" where
  "setUploadedFile f st = st\<lparr>uploadedFile := f\<rparr>"

text \<open>\<^verbatim>\<open>handleClearChat\<close> of \<^verbatim>\<open>Chat\<close>; \<open>confirmed\<close> is what \<^verbatim>\<open>confirm(...)\<close> returned.\<close>

definition handleClearChat :: "bool \<Rightarrow> Chat_state \<Rightarrow> Chat_state" where
  "handleClearChat confirmed st =
     (if confirmed then
        st\<lparr>messages := [], uploadedFile := None, latestPdf := None, latestPpt := None,
            latestDashboard := None\<rparr>
      else st)"

record KeyboardEvent =
  key :: string
  shiftKey :: bool

text \<open>
  The \<^verbatim>\<open>onKeyDown\<close> handlers of the two text areas and a click on the two send buttons. A
  button with \<^verbatim>\<open>disabled\<close> set does not submit its form.
\<close>

definition Chat_onKeyDown :: "string \<Rightarrow> int \<Rightarrow> KeyboardEvent \<Rightarrow> Chat_state
    \<Rightarrow> Chat_state \<times> api_call option" where
  "Chat_onKeyDown mid now e st =
     (if key e = ''Enter'' \<and> \<not> shiftKey e then
        (if trim (input st) \<noteq> [] \<and> \<not> loading st
         then handleSendMessage (selectedAgent st) mid now st
         else (st, None))
      else (st, None))"

definition Chat_send_click :: "string \<Rightarrow> int \<Rightarrow> Chat_state \<Rightarrow> Chat_state \<times> api_call option" where
  "Chat_send_click mid now st =
     (if loading st \<or> trim (input st) = [] then (st, None)
      else handleSendMessage (selectedAgent st) mid now st)"

definition AgentPage_onKeyDown :: "AgentType \<Rightarrow> string \<Rightarrow> int \<Rightarrow> KeyboardEvent \<Rightarrow> conversation
    \<Rightarrow> conversation \<times> api_call option" where
  "AgentPage_onKeyDown agentType mid now e st =
     (if key e = ''Enter'' \<and> \<not> shiftKey e then handleSendMessage agentType mid now st
      else (st, None))"

definition AgentPage_send_click :: "AgentType \<Rightarrow> string \<Rightarrow> int \<Rightarrow> conversation
    \<Rightarrow> conversation \<times> api_call option" where
  "AgentPage_send_click agentType mid now st =
     (if loading st \<or> trim (input st) = [] then (st, None)
      else handleSendMessage agentType mid now st)"

section \<open>Predicates of the specification and example data\<close>



text \<open>
  A prompt consisting only of white space: its bytes are a sequence, possibly empty, of
  the UTF-8 encodings of the white-space and line-terminator code points.
\<close>

definition whitespace_code_points :: "nat list list" where
  "whitespace_code_points =
     [[0x09], [0x0A], [0x0B], [0x0C], [0x0D], [0x20], [0xC2, 0xA0], [0xE1, 0x9A, 0x80],
      [0xE2, 0x80, 0x80], [0xE2, 0x80, 0x81], [0xE2, 0x80, 0x82], [0xE2, 0x80, 0x83],
      [0xE2, 0x80, 0x84], [0xE2, 0x80, 0x85], [0xE2, 0x80, 0x86], [0xE2, 0x80, 0x87],
      [0xE2, 0x80, 0x88], [0xE2, 0x80, 0x89], [0xE2, 0x80, 0x8A], [0xE2, 0x80, 0xA8],
      [0xE2, 0x80, 0xA9], [0xE2, 0x80, 0xAF], [0xE2, 0x81, 0x9F], [0xE3, 0x80, 0x80],
      [0xEF, 0xBB, 0xBF]]"

definition only_whitespace :: "string \<Rightarrow> bool" where
  "only_whitespace s =
     (\<exists>ws. set ws \<subseteq> set whitespace_code_points \<and> map of_char s = concat ws)"







definition sales_csv :: File where
  "sales_csv = \<lparr>file_name = ''sales.csv'', file_content = ''region,total''\<rparr>"

definition staged_conversation :: conversation where
  "staged_conversation =
     setUploadedFile (Some sales_csv) (setInput ''Summarise the sales'' initial_conversation)"

definition blank_conversation :: conversation where
  "blank_conversation =
     setUploadedFile (Some sales_csv)
       (setInput ('' '' @ [CHR 0x09, CHR 0x0A, CHR 0xC2, CHR 0xA0, CHR 0xE2, CHR 0x80, CHR 0xA8])
          initial_conversation)"

definition conversation_with_reports :: conversation where
  "conversation_with_reports =
     initial_conversation\<lparr>latestPdf := Some ''/reports/old.pdf'', latestPpt := Some ''/reports/old.pptx''\<rparr>"

text \<open>A \<^verbatim>\<open>Chat\<close> with one message, a staged file and all three pointers set.\<close>

definition Chat_with_history :: Chat_state where
  "Chat_with_history =
     initial_Chat\<lparr>messages := [userMessage ''m1'' 1 None ''Total sales?''],
                  uploadedFile := Some sales_csv,
                  latestPdf := Some ''/reports/old.pdf'', latestPpt := Some ''/reports/old.pptx'',
                  latestDashboard := Some ''/dash/old.html''\<rparr>"

definition dashboard_only_response :: AnalysisResponse where
  "dashboard_only_response =
     \<lparr>response = ''Dashboard ready'', images = None, image_paths = None,
      pdf_path = None, ppt_path = None, dashboard_path = Some ''/dash/new.html''\<rparr>"

definition empty_pdf_response :: AnalysisResponse where
  "empty_pdf_response =
     \<lparr>response = ''No report was produced'', images = None, image_paths = None,
      pdf_path = Some [], ppt_path = None, dashboard_path = None\<rparr>"

definition enter_key :: KeyboardEvent where
  "enter_key = \<lparr>key = ''Enter'', shiftKey = False\<rparr>"

text \<open>
  An \<^verbatim>\<open>AgentPage\<close> whose user typed a question, pressed Enter and typed a second question
  while the first request is in flight.
\<close>

definition busy_AgentPage :: conversation where
  "busy_AgentPage =
     setInput ''And by region?''
       (fst (AgentPage_onKeyDown Pdf ''m1'' 1 enter_key (setInput ''Total sales?'' initial_conversation)))"

section \<open>Auxiliary facts\<close>

lemmas trim_eval =
  trim_def trimStart.simps trimEnd.simps whitespace_prefix_def whitespace_suffix_def
  whitespace1_def whitespace3_def

text \<open>\<open>trim\<close> gives the empty string exactly on the prompts that are only white space.\<close>

lemma whitespace_bytes_1:
  assumes "whitespace1 a"
  shows "whitespace_bytes (a # r) = 1"
proof (cases r)
  case Nil
  with assms show ?thesis by simp
next
  case (Cons b r')
  with assms show ?thesis by (cases r') simp_all
qed

lemma whitespace_bytes_2: "whitespace_bytes (0xC2 # 0xA0 # r) = 2"
  by (cases r) (simp_all add: whitespace1_def)

lemma whitespace_bytes_3:
  "whitespace3 a b c \<Longrightarrow> whitespace_bytes (a # b # c # r) = 3"
  by (auto simp: whitespace1_def whitespace3_def)

lemma whitespace_code_point_prefix:
  assumes "w \<in> set whitespace_code_points"
  shows "w \<noteq> [] \<and> whitespace_bytes (take 3 (w @ r)) = length w"
  using assms unfolding whitespace_code_points_def
  by (auto simp: whitespace_bytes_1 whitespace_bytes_2 whitespace_bytes_3 whitespace1_def
      whitespace3_def simp del: whitespace_bytes.simps)

lemma trimStart_whitespace:
  "set ws \<subseteq> set whitespace_code_points \<Longrightarrow> map of_char s = concat ws \<Longrightarrow> trimStart s = []"
proof (induction ws arbitrary: s)
  case Nil
  then show ?case by (simp add: trimStart.simps)
next
  case (Cons w ws)
  from Cons.prems(2) obtain s1 s2 where
    s: "s = s1 @ s2" and s1: "map of_char s1 = w" and s2: "map of_char s2 = concat ws"
    by (auto simp: map_eq_append_conv)
  from Cons.prems(1) have w: "w \<in> set whitespace_code_points" by simp
  have "whitespace_prefix s = whitespace_bytes (take 3 (map of_char s))"
    by (simp only: whitespace_prefix_def take_map)
  also have "map of_char s = w @ concat ws"
    using Cons.prems(2) by simp
  also have "whitespace_bytes (take 3 (w @ concat ws)) = length w"
    using whitespace_code_point_prefix[OF w] by blast
  finally have p: "whitespace_prefix s = length s1"
    using s1 by auto
  from whitespace_code_point_prefix[OF w] s1 have n: "s1 \<noteq> []"
    by auto
  from Cons.prems(1) have "trimStart s2 = []"
    by (intro Cons.IH s2) simp
  with n p s show ?case
    by (subst trimStart.simps) simp
qed

lemma only_whitespace_trim: "only_whitespace s \<Longrightarrow> trim s = []"
  by (auto simp: only_whitespace_def trim_def trimStart_whitespace trimEnd.simps[of "[]"])

lemma whitespace1_cases: "whitespace1 a \<Longrightarrow> a \<in> {9, 10, 11, 12, 13, 32}"
  unfolding whitespace1_def by auto

lemma whitespace3_cases:
  "whitespace3 a b c \<Longrightarrow> [a, b, c] \<in> set whitespace_code_points"
proof -
  assume h: "whitespace3 a b c"
  have r: "0x80 \<le> c \<and> c \<le> 0x8A \<Longrightarrow> c \<in> {128, 129, 130, 131, 132, 133, 134, 135, 136, 137, 138}"
    for c :: nat
    by simp arith
  from h r[of c] show ?thesis
    unfolding whitespace3_def whitespace_code_points_def by auto
qed

lemma whitespace_bytes_take:
  "0 < whitespace_bytes bs \<Longrightarrow> take (whitespace_bytes bs) bs \<in> set whitespace_code_points"
proof (induction bs rule: whitespace_bytes.induct)
  case 1
  then show ?case by simp
next
  case (2 a)
  then show ?case
    using whitespace1_cases[of a] by (auto simp: whitespace_code_points_def split: if_splits)
next
  case (3 a b)
  then show ?case
    using whitespace1_cases[of a] by (auto simp: whitespace_code_points_def split: if_splits)
next
  case (4 a b c r)
  then show ?case
    using whitespace1_cases[of a] whitespace3_cases[of a b c]
    by (auto simp: whitespace_code_points_def split: if_splits)
qed

lemma whitespace_bytes_le: "whitespace_bytes bs \<le> length bs"
  by (induction bs rule: whitespace_bytes.induct) auto

lemma whitespace_bytes_take3: "whitespace_bytes (take 3 bs) = whitespace_bytes bs"
  by (induction bs rule: whitespace_bytes.induct) auto

lemma whitespace_prefix_take:
  assumes "0 < whitespace_prefix s"
  shows "map of_char (take (whitespace_prefix s) s) \<in> set whitespace_code_points"
proof -
  let ?bs = "map of_char s :: nat list"
  have e: "whitespace_prefix s = whitespace_bytes ?bs"
    by (simp only: whitespace_prefix_def take_map[symmetric] whitespace_bytes_take3)
  with assms have "take (whitespace_bytes ?bs) ?bs \<in> set whitespace_code_points"
    by (intro whitespace_bytes_take) simp
  with e show ?thesis by (simp add: take_map)
qed

lemma only_whitespace_append:
  "only_whitespace s \<Longrightarrow> only_whitespace t \<Longrightarrow> only_whitespace (s @ t)"
proof -
  assume "only_whitespace s" and "only_whitespace t"
  then obtain ws vs where
    "set ws \<subseteq> set whitespace_code_points" "map of_char s = concat ws"
    "set vs \<subseteq> set whitespace_code_points" "map of_char t = concat vs"
    unfolding only_whitespace_def by blast
  then have "set (ws @ vs) \<subseteq> set whitespace_code_points \<and> map of_char (s @ t) = concat (ws @ vs)"
    by simp
  then show ?thesis
    unfolding only_whitespace_def by blast
qed

lemma only_whitespace_code_point:
  assumes "map of_char s \<in> set whitespace_code_points"
  shows "only_whitespace s"
proof -
  from assms have "set [map of_char s] \<subseteq> set whitespace_code_points \<and>
      map of_char s = concat [map of_char s]"
    by simp
  then show ?thesis
    unfolding only_whitespace_def by blast
qed

lemma only_whitespace_Nil: "only_whitespace []"
proof -
  have "set [] \<subseteq> set whitespace_code_points \<and> map of_char [] = concat ([] :: nat list list)"
    by simp
  then show ?thesis
    unfolding only_whitespace_def by blast
qed

lemma trimStart_only_whitespace:
  "only_whitespace (trimStart s) \<Longrightarrow> only_whitespace s"
proof (induction s rule: trimStart.induct)
  case (1 s)
  show ?case
  proof (cases "s = [] \<or> whitespace_prefix s = 0")
    case True
    with "1.prems" show ?thesis by (simp add: trimStart.simps[of s])
  next
    case False
    with "1.prems" have "only_whitespace (trimStart (drop (whitespace_prefix s) s))"
      by (simp add: trimStart.simps[of s])
    with False have r: "only_whitespace (drop (whitespace_prefix s) s)"
      by (intro "1.IH") auto
    from False have "only_whitespace (take (whitespace_prefix s) s)"
      by (intro only_whitespace_code_point whitespace_prefix_take) simp
    from only_whitespace_append[OF this r] show ?thesis by simp
  qed
qed

lemma whitespace_suffix_drop:
  assumes "0 < whitespace_suffix s"
  shows "whitespace_suffix s \<le> length s \<and>
         whitespace_prefix (drop (length s - whitespace_suffix s) s) = whitespace_suffix s"
  using assms by (auto simp: whitespace_suffix_def split: if_splits)

lemma trimEnd_only_whitespace:
  "trimEnd s = [] \<Longrightarrow> only_whitespace s"
proof (induction s rule: trimEnd.induct)
  case (1 s)
  show ?case
  proof (cases "s = [] \<or> whitespace_suffix s = 0")
    case True
    with "1.prems" show ?thesis by (simp add: trimEnd.simps[of s] only_whitespace_Nil)
  next
    case False
    let ?k = "whitespace_suffix s"
    let ?d = "drop (length s - ?k) s"
    from False have k: "?k \<le> length s" and p: "whitespace_prefix ?d = ?k"
      using whitespace_suffix_drop[of s] by auto
    from False "1.prems" have "trimEnd (take (length s - ?k) s) = []"
      by (simp add: trimEnd.simps[of s])
    with False have l: "only_whitespace (take (length s - ?k) s)"
      by (intro "1.IH") auto
    from k have "length ?d = ?k" by simp
    with p False whitespace_prefix_take[of ?d]
    have "map of_char ?d \<in> set whitespace_code_points" by simp
    then have "only_whitespace ?d" by (rule only_whitespace_code_point)
    from only_whitespace_append[OF l this] show ?thesis by simp
  qed
qed

lemma trim_empty_iff: "trim s = [] \<longleftrightarrow> only_whitespace s"
proof
  assume "trim s = []"
  then have "only_whitespace (trimStart s)"
    unfolding trim_def by (rule trimEnd_only_whitespace)
  then show "only_whitespace s" by (rule trimStart_only_whitespace)
next
  assume "only_whitespace s"
  then show "trim s = []" by (rule only_whitespace_trim)
qed





















section \<open>Authentication\<close>











section \<open>The conversation views\<close>

lemma trim_example: "trim ''Summarise the sales'' = ''Summarise the sales''"
  by (simp add: trim_eval)

lemma staged_conversation_fields:
  "input staged_conversation = ''Summarise the sales''"
  "uploadedFile staged_conversation = Some sales_csv"
  by (simp_all add: staged_conversation_def setUploadedFile_def setInput_def
      initial_conversation_def)

lemma staged_conversation_not_blank: "trim (input staged_conversation) \<noteq> []"
  by (simp add: staged_conversation_fields trim_example)

text \<open>
  Claim C4 says that the staged file is cleared upon dispatch, whatever the request's fate.
  A send with a staged file issues \<open>UploadAndAnalyze\<close> and leaves the file staged, and
  the file is still staged after a response that is not \<^verbatim>\<open>ok\<close>.
\<close>

theorem staged_file_kept_until_response_counterexample:
  "snd (handleSendMessage Auto ''m1'' 1 staged_conversation) =
     Some (UploadAndAnalyze sales_csv ''Summarise the sales'' Auto) \<and>
   uploadedFile (fst (handleSendMessage Auto ''m1'' 1 staged_conversation)) = Some sales_csv \<and>
   uploadedFile
     (handleSendMessage_resume ''m2'' 2 (UploadAndAnalyze sales_csv ''Summarise the sales'' Auto)
        (analyze_result (Responded False (Inr dashboard_only_response)))
        (fst (handleSendMessage Auto ''m1'' 1 staged_conversation))) = Some sales_csv"
  by (simp add: handleSendMessage_def handleSendMessage_resume_def analyze_result_def
      staged_conversation_fields trim_example)

text \<open>
  Claim C4, as the code has it. A send of a non-blank prompt issues \<open>UploadAndAnalyze\<close> with
  the staged file when there is one and \<open>AnalyzeWithExistingData\<close> when there is none, and
  the staged file stays in place while the request is in flight:
  \<^verbatim>\<open>setUploadedFile(null)\<close> stands after the \<^verbatim>\<open>await\<close>. The slot is emptied when the upload
  call returns a response and keeps its content when a call fails or a call without a file
  returns.
\<close>

theorem staged_file_cleared_on_success:
  assumes "trim (input st) \<noteq> []"
  shows "(uploadedFile st = Some f \<longrightarrow>
            snd (handleSendMessage agent mid now st) = Some (UploadAndAnalyze f (input st) agent) \<and>
            uploadedFile (fst (handleSendMessage agent mid now st)) = Some f) \<and>
         (uploadedFile st = None \<longrightarrow>
            snd (handleSendMessage agent mid now st) = Some (AnalyzeWithExistingData (input st) agent) \<and>
            uploadedFile (fst (handleSendMessage agent mid now st)) = None) \<and>
         uploadedFile (handleSendMessage_resume mid2 now2 (UploadAndAnalyze f p a) (Inr r) st2) = None \<and>
         uploadedFile (handleSendMessage_resume mid2 now2 (AnalyzeWithExistingData p a) (Inr r) st2) =
           uploadedFile st2 \<and>
         uploadedFile (handleSendMessage_resume mid2 now2 call (Inl e) st2) = uploadedFile st2"
  using assms
  by (simp add: handleSendMessage_def handleSendMessage_resume_def Let_def)

theorem staged_file_cleared_on_success_witness:
  "trim (input staged_conversation) \<noteq> [] \<and> uploadedFile staged_conversation = Some sales_csv \<and>
   snd (handleSendMessage Pdf ''m1'' 1 staged_conversation) =
     Some (UploadAndAnalyze sales_csv (input staged_conversation) Pdf) \<and>
   uploadedFile (fst (handleSendMessage Pdf ''m1'' 1 staged_conversation)) = Some sales_csv \<and>
   uploadedFile (handleSendMessage_resume ''m2'' 2 (UploadAndAnalyze sales_csv ''Summarise the sales'' Pdf)
       (Inr dashboard_only_response) (fst (handleSendMessage Pdf ''m1'' 1 staged_conversation))) = None"
proof -
  have h: "trim (input staged_conversation) \<noteq> []"
    by (rule staged_conversation_not_blank)
  have f: "uploadedFile staged_conversation = Some sales_csv"
    by (rule staged_conversation_fields(2))
  from staged_file_cleared_on_success[OF h, of sales_csv Pdf "''m1''" 1 "''m2''" 2
      "''Summarise the sales''" Pdf dashboard_only_response
      "fst (handleSendMessage Pdf ''m1'' 1 staged_conversation)"] f h
  show ?thesis by blast
qed

lemma Chat_send_gated:
  "loading st \<Longrightarrow> Chat_onKeyDown mid now e st = (st, None)"
  "loading st \<Longrightarrow> Chat_send_click mid now st = (st, None)"
  "loading c \<Longrightarrow> AgentPage_send_click agentType mid now c = (c, None)"
  by (simp_all add: Chat_onKeyDown_def Chat_send_click_def AgentPage_send_click_def)

lemma trim_example2: "trim ''And by region?'' = ''And by region?''"
  by (simp add: trim_eval)

lemma trim_example3: "trim ''Total sales?'' = ''Total sales?''"
  by (simp add: trim_eval)

text \<open>
  Claim C5, evaluated on \<^verbatim>\<open>AgentPage\<close>. Its text area is not disabled while a request is in
  flight and its \<^verbatim>\<open>onKeyDown\<close> calls \<^verbatim>\<open>handleSendMessage\<close> without looking at \<open>loading\<close>,
  unlike the send button of the same page and unlike the Enter key and the send button of
  \<^verbatim>\<open>Chat\<close> (\<open>Chat_send_gated\<close>). With the first request still in flight, Enter on a second question
  appends a second user message and issues a second call; a click on the send button in
  the same state does nothing.
\<close>

theorem AgentPage_enter_while_busy_sends_again:
  "loading busy_AgentPage \<and> length (messages busy_AgentPage) = 1 \<and>
   AgentPage_onKeyDown Pdf ''m2'' 2 enter_key busy_AgentPage =
     (busy_AgentPage\<lparr>messages := messages busy_AgentPage @ [userMessage ''m2'' 2 None ''And by region?''],
                      input := [], loading := True\<rparr>,
      Some (AnalyzeWithExistingData ''And by region?'' Pdf)) \<and>
   AgentPage_send_click Pdf ''m2'' 2 busy_AgentPage = (busy_AgentPage, None)"
  by (simp add: busy_AgentPage_def AgentPage_onKeyDown_def AgentPage_send_click_def enter_key_def
      handleSendMessage_def setInput_def initial_conversation_def trim_example2 trim_example3)

text \<open>
  Claim C6. When the call fails, that is when \<^verbatim>\<open>fetch\<close> rejects, the response is not
  \<^verbatim>\<open>ok\<close> or its body does not parse, the handler appends one message and clears
  \<open>loading\<close>, and that is all it changes: the message has type \<open>Assistant\<close> and a content
  that starts with \<^verbatim>\<open>Error: \<close>; the earlier messages, the three latest-artifact pointers,
  the staged file and the input are as they were.
\<close>

theorem failed_request_appends_one_error_message:
  assumes "analyze_result out = Inl e"
  shows "handleSendMessage_resume mid now call (analyze_result out) st =
           st\<lparr>messages := messages st @ [errorMessage mid now e], loading := False\<rparr> \<and>
         msg_type (errorMessage mid now e) = Assistant \<and>
         (\<exists>m. content (errorMessage mid now e) = ''Error: '' @ m) \<and>
         messages (handleSendMessage_resume mid now call (analyze_result out) st) =
           messages st @ [errorMessage mid now e] \<and>
         loading (handleSendMessage_resume mid now call (analyze_result out) st) = False \<and>
         latestPdf (handleSendMessage_resume mid now call (analyze_result out) st) = latestPdf st \<and>
         latestPpt (handleSendMessage_resume mid now call (analyze_result out) st) = latestPpt st \<and>
         latestDashboard (handleSendMessage_resume mid now call (analyze_result out) st) =
           latestDashboard st \<and>
         uploadedFile (handleSendMessage_resume mid now call (analyze_result out) st) = uploadedFile st \<and>
         input (handleSendMessage_resume mid now call (analyze_result out) st) = input st"
  by (simp add: assms handleSendMessage_resume_def errorMessage_def)

theorem failed_request_appends_one_error_message_witness:
  "analyze_result (Responded False (Inr dashboard_only_response)) =
     Inl (ErrorObject ''Analysis request failed'') \<and>
   messages (handleSendMessage_resume ''m2'' 2 (AnalyzeWithExistingData ''Total sales?'' Auto)
      (analyze_result (Responded False (Inr dashboard_only_response))) conversation_with_reports) =
     messages conversation_with_reports @
       [errorMessage ''m2'' 2 (ErrorObject ''Analysis request failed'')] \<and>
   latestPdf (handleSendMessage_resume ''m2'' 2 (AnalyzeWithExistingData ''Total sales?'' Auto)
      (analyze_result (Responded False (Inr dashboard_only_response))) conversation_with_reports) =
     latestPdf conversation_with_reports"
proof -
  have h: "analyze_result (Responded False (Inr dashboard_only_response)) =
     Inl (ErrorObject ''Analysis request failed'')"
    by (simp add: analyze_result_def)
  from failed_request_appends_one_error_message[OF h, of "''m2''" 2
      "AnalyzeWithExistingData ''Total sales?'' Auto" conversation_with_reports] h
  show ?thesis by blast
qed

text \<open>
  Claim C7 says that a pointer is overwritten exactly when its path field is present in the
  response. A response whose \<^verbatim>\<open>pdf_path\<close> is present and empty leaves the PDF pointer at
  the old path.
\<close>

theorem empty_path_keeps_pointer_counterexample:
  "pdf_path empty_pdf_response = Some [] \<and>
   latestPdf conversation_with_reports = Some ''/reports/old.pdf'' \<and>
   latestPdf (handleSendMessage_resume ''m2'' 2 (AnalyzeWithExistingData ''Total sales?'' Auto)
                (Inr empty_pdf_response) conversation_with_reports) = Some ''/reports/old.pdf''"
  by (simp add: handleSendMessage_resume_def empty_pdf_response_def conversation_with_reports_def
      initial_conversation_def string_truthy_def)

text \<open>
  Claim C7, as the code has it. On a response each of the three pointers takes the
  response's path when that path is present and not the empty string, and keeps its value
  otherwise: the guard is \<^verbatim>\<open>if (response.pdf_path)\<close>, which an empty path fails. A
  response with a dashboard path only leaves the PDF and deck pointers as they were.
\<close>

theorem pointers_follow_nonempty_paths:
  "latestPdf (handleSendMessage_resume mid now call (Inr r) st) =
     (if pdf_path r \<noteq> None \<and> pdf_path r \<noteq> Some [] then pdf_path r else latestPdf st) \<and>
   latestPpt (handleSendMessage_resume mid now call (Inr r) st) =
     (if ppt_path r \<noteq> None \<and> ppt_path r \<noteq> Some [] then ppt_path r else latestPpt st) \<and>
   latestDashboard (handleSendMessage_resume mid now call (Inr r) st) =
     (if dashboard_path r \<noteq> None \<and> dashboard_path r \<noteq> Some [] then dashboard_path r
      else latestDashboard st)"
  by (cases call) (auto simp: handleSendMessage_resume_def string_truthy_def Let_def split: option.splits)

theorem pointers_follow_nonempty_paths_witness:
  "latestPdf (handleSendMessage_resume ''m2'' 2 (AnalyzeWithExistingData ''Total sales?'' Auto)
                (Inr dashboard_only_response) conversation_with_reports) = Some ''/reports/old.pdf'' \<and>
   latestPpt (handleSendMessage_resume ''m2'' 2 (AnalyzeWithExistingData ''Total sales?'' Auto)
                (Inr dashboard_only_response) conversation_with_reports) = Some ''/reports/old.pptx'' \<and>
   latestDashboard (handleSendMessage_resume ''m2'' 2 (AnalyzeWithExistingData ''Total sales?'' Auto)
                (Inr dashboard_only_response) conversation_with_reports) = Some ''/dash/new.html''"
  using pointers_follow_nonempty_paths[of "''m2''" 2 "AnalyzeWithExistingData ''Total sales?'' Auto"
      dashboard_only_response conversation_with_reports]
  by (simp add: dashboard_only_response_def conversation_with_reports_def initial_conversation_def)

text \<open>
  Claim C8. A confirmed \<open>handleClearChat\<close> is one step that empties the message list, the
  staged file and the three latest-artifact pointers together and leaves the input and
  \<open>loading\<close> alone; a declined one changes nothing. Whatever the answer, the state after
  the handler is either the state before it or one with all five emptied.
\<close>

theorem handleClearChat_clears_all_at_once:
  "handleClearChat True st =
     st\<lparr>messages := [], uploadedFile := None, latestPdf := None, latestPpt := None,
        latestDashboard := None\<rparr> \<and>
   messages (handleClearChat True st) = [] \<and>
   uploadedFile (handleClearChat True st) = None \<and>
   latestPdf (handleClearChat True st) = None \<and>
   latestPpt (handleClearChat True st) = None \<and>
   latestDashboard (handleClearChat True st) = None \<and>
   input (handleClearChat True st) = input st \<and>
   loading (handleClearChat True st) = loading st \<and>
   handleClearChat False st = st \<and>
   (handleClearChat confirmed st = st \<or>
    (messages (handleClearChat confirmed st) = [] \<and>
     uploadedFile (handleClearChat confirmed st) = None \<and>
     latestPdf (handleClearChat confirmed st) = None \<and>
     latestPpt (handleClearChat confirmed st) = None \<and>
     latestDashboard (handleClearChat confirmed st) = None))"
  by (simp add: handleClearChat_def)

theorem handleClearChat_clears_all_at_once_witness:
  "messages (handleClearChat True Chat_with_history) = [] \<and>
   uploadedFile (handleClearChat True Chat_with_history) = None \<and>
   latestPdf (handleClearChat True Chat_with_history) = None \<and>
   latestPpt (handleClearChat True Chat_with_history) = None \<and>
   latestDashboard (handleClearChat True Chat_with_history) = None \<and>
   handleClearChat False Chat_with_history = Chat_with_history"
  using handleClearChat_clears_all_at_once[of Chat_with_history True]
  by blast

text \<open>
  Claim C9. With or without a file, the form has an \<^verbatim>\<open>agent_type\<close> field exactly when the
  agent is not \<open>Auto\<close>; the field then holds the agent's name, one of \<^verbatim>\<open>data_analysis\<close>,
  \<^verbatim>\<open>pdf\<close>, \<^verbatim>\<open>ppt\<close>, \<^verbatim>\<open>dashboard\<close>; for \<open>Auto\<close> the form is the file and the prompt, or
  the prompt alone.
\<close>

theorem agent_type_field_iff_not_auto:
  "((''agent_type'' \<in> fst ` set (uploadAndAnalyze_form file prompt agentType)) \<longleftrightarrow> agentType \<noteq> Auto) \<and>
   ((''agent_type'' \<in> fst ` set (analyzeWithExistingData_form prompt agentType)) \<longleftrightarrow> agentType \<noteq> Auto) \<and>
   (\<forall>v. (''agent_type'', v) \<in> set (uploadAndAnalyze_form file prompt agentType) \<or>
        (''agent_type'', v) \<in> set (analyzeWithExistingData_form prompt agentType) \<longrightarrow>
        v = Text (agent_string agentType) \<and>
        v \<in> {Text ''data_analysis'', Text ''pdf'', Text ''ppt'', Text ''dashboard''}) \<and>
   (agentType = Auto \<longrightarrow>
      uploadAndAnalyze_form file prompt agentType = [(''file'', Blob file), (''prompt'', Text prompt)] \<and>
      analyzeWithExistingData_form prompt agentType = [(''prompt'', Text prompt)]) \<and>
   (agentType \<noteq> Auto \<longrightarrow>
      uploadAndAnalyze_form file prompt agentType =
        [(''file'', Blob file), (''prompt'', Text prompt), (''agent_type'', Text (agent_string agentType))] \<and>
      analyzeWithExistingData_form prompt agentType =
        [(''prompt'', Text prompt), (''agent_type'', Text (agent_string agentType))])"
  by (cases agentType) (auto simp: uploadAndAnalyze_form_def analyzeWithExistingData_form_def)

theorem agent_type_field_iff_not_auto_witness:
  "uploadAndAnalyze_form sales_csv ''Total sales?'' Auto =
     [(''file'', Blob sales_csv), (''prompt'', Text ''Total sales?'')] \<and>
   analyzeWithExistingData_form ''Total sales?'' Auto = [(''prompt'', Text ''Total sales?'')] \<and>
   uploadAndAnalyze_form sales_csv ''Total sales?'' Ppt =
     [(''file'', Blob sales_csv), (''prompt'', Text ''Total sales?''), (''agent_type'', Text ''ppt'')] \<and>
   analyzeWithExistingData_form ''Total sales?'' Data_analysis =
     [(''prompt'', Text ''Total sales?''), (''agent_type'', Text ''data_analysis'')]"
proof -
  have a: "Auto = Auto" and p: "Ppt \<noteq> Auto" and d: "Data_analysis \<noteq> Auto"
    by simp_all
  from agent_type_field_iff_not_auto[of sales_csv "''Total sales?''" Auto] a
  have 1: "uploadAndAnalyze_form sales_csv ''Total sales?'' Auto =
     [(''file'', Blob sales_csv), (''prompt'', Text ''Total sales?'')] \<and>
   analyzeWithExistingData_form ''Total sales?'' Auto = [(''prompt'', Text ''Total sales?'')]"
    by blast
  from agent_type_field_iff_not_auto[of sales_csv "''Total sales?''" Ppt] p
  have 2: "uploadAndAnalyze_form sales_csv ''Total sales?'' Ppt =
     [(''file'', Blob sales_csv), (''prompt'', Text ''Total sales?''),
      (''agent_type'', Text (agent_string Ppt))]"
    by blast
  from agent_type_field_iff_not_auto[of sales_csv "''Total sales?''" Data_analysis] d
  have 3: "analyzeWithExistingData_form ''Total sales?'' Data_analysis =
     [(''prompt'', Text ''Total sales?''), (''agent_type'', Text (agent_string Data_analysis))]"
    by blast
  from 1 2 3 show ?thesis by simp
qed

lemma blank_conversation_fields:
  "uploadedFile blank_conversation = Some sales_csv"
  "trim (input blank_conversation) = []"
  by (simp_all add: blank_conversation_def setUploadedFile_def setInput_def
      initial_conversation_def trim_eval)

lemma initial_Chat_blank: "trim (input initial_Chat) = []"
  by (simp add: initial_Chat_def trim_eval)

text \<open>
  Claim C10. When the prompt is empty or consists only of white space, which by
  \<open>trim_empty_iff\<close> is when the handler's own test \<^verbatim>\<open>!input.trim()\<close> holds,
  \<open>handleSendMessage\<close> returns the state it was given and issues no call: no message
  is appended, \<open>loading\<close>, the staged file and the artifact pointers are untouched. This
  holds in both components and on every path that leads to the handler: the Enter key and
  the send button of \<^verbatim>\<open>Chat\<close> and of \<^verbatim>\<open>AgentPage\<close>.
\<close>

theorem blank_prompt_send_is_noop:
  "(only_whitespace (input st) \<longrightarrow> handleSendMessage agent mid now st = (st, None)) \<and>
   (only_whitespace (input c) \<longrightarrow>
      Chat_onKeyDown mid now e c = (c, None) \<and> Chat_send_click mid now c = (c, None)) \<and>
   (only_whitespace (input a) \<longrightarrow>
      AgentPage_onKeyDown agentType mid now e a = (a, None) \<and>
      AgentPage_send_click agentType mid now a = (a, None))"
  by (simp add: handleSendMessage_def Chat_onKeyDown_def Chat_send_click_def
      AgentPage_onKeyDown_def AgentPage_send_click_def trim_empty_iff)

theorem blank_prompt_send_is_noop_witness:
  "only_whitespace (input blank_conversation) \<and> only_whitespace (input initial_Chat) \<and>
   handleSendMessage Auto ''m1'' 1 blank_conversation = (blank_conversation, None) \<and>
   AgentPage_onKeyDown Pdf ''m1'' 1 enter_key blank_conversation = (blank_conversation, None) \<and>
   Chat_onKeyDown ''m1'' 1 enter_key initial_Chat = (initial_Chat, None) \<and>
   Chat_send_click ''m1'' 1 initial_Chat = (initial_Chat, None)"
proof -
  have b: "only_whitespace (input blank_conversation)"
    by (simp only: trim_empty_iff[symmetric] blank_conversation_fields(2))
  have c: "only_whitespace (input initial_Chat)"
    by (simp only: trim_empty_iff[symmetric] initial_Chat_blank)
  from blank_prompt_send_is_noop[of blank_conversation Auto "''m1''" 1 initial_Chat enter_key
      blank_conversation Pdf] b c
  show ?thesis by blast
qed

end
